theory Spec2Isabelle
  imports Main
begin

text \<open>
  The system builder is a web component that leads through three dependent choices
  (sport, shaft type, shaft size), lets product cards be toggled into a set of selected
  products, shows a summary of that set and submits it to the cart. The functions below
  follow the methods of the component one by one, on a state made of its fields and of
  the few parts of the page that its transitions read. The current component comes
  first; the older copy kept in the assets directory is given where it differs.
\<close>

section \<open>JavaScript values used by the system builder\<close>

text \<open>
  The component stores three kinds of numbers: variant ids, prices in minor currency
  units and quantities. All of them come out of \<^verbatim>\<open>parseInt(..., 10)\<close>, so each is an
  integer or \<^verbatim>\<open>NaN\<close>. Integers are unbounded here; the rounding of doubles beyond
  2^53 is not modelled.
\<close>

datatype jsnum = Num int | NaN

text \<open>Truthiness of a number: \<^verbatim>\<open>NaN\<close> and \<^verbatim>\<open>0\<close> are falsy.\<close>

definition truthy :: "jsnum \<Rightarrow> bool" where
  "truthy x = (case x of NaN \<Rightarrow> False | Num n \<Rightarrow> n \<noteq> 0)"

text \<open>\<^verbatim>\<open>a === b\<close> on numbers: \<^verbatim>\<open>NaN\<close> equals nothing, itself included.\<close>

definition strict_eq :: "jsnum \<Rightarrow> jsnum \<Rightarrow> bool" where
  "strict_eq x y = (case x of NaN \<Rightarrow> False | Num a \<Rightarrow> (case y of NaN \<Rightarrow> False | Num b \<Rightarrow> a = b))"

text \<open>\<^verbatim>\<open>x || d\<close> for a number \<^verbatim>\<open>x\<close> and an integer default \<^verbatim>\<open>d\<close>.\<close>

definition or_num :: "jsnum \<Rightarrow> int \<Rightarrow> int" where
  "or_num x d = (case x of NaN \<Rightarrow> d | Num n \<Rightarrow> if n = 0 then d else n)"

text \<open>\<^verbatim>\<open>a + x\<close> and \<^verbatim>\<open>x < b\<close>: arithmetic with \<^verbatim>\<open>NaN\<close> gives \<^verbatim>\<open>NaN\<close>, comparisons with it are false.\<close>

definition js_add :: "int \<Rightarrow> jsnum \<Rightarrow> jsnum" where
  "js_add a x = (case x of NaN \<Rightarrow> NaN | Num d \<Rightarrow> Num (a + d))"

definition js_lt :: "jsnum \<Rightarrow> int \<Rightarrow> bool" where
  "js_lt x b = (case x of NaN \<Rightarrow> False | Num n \<Rightarrow> n < b)"

subsection \<open>Strings\<close>

text \<open>
  Attribute values and text nodes are strings; a missing attribute or element is
  \<^verbatim>\<open>undefined\<close>, modelled as \<open>None\<close>. Characters are bytes, and white space is the
  ASCII white space (tab, line feed, vertical tab, form feed, carriage return, space).
\<close>

definition isWhite :: "char \<Rightarrow> bool" where
  "isWhite c = (c \<in> set [CHR 0x09, CHR 0x0A, CHR 0x0B, CHR 0x0C, CHR 0x0D, CHR 0x20])"

definition isDigit :: "char \<Rightarrow> bool" where
  "isDigit c = (c \<in> set ''0123456789'')"

definition digitVal :: "char \<Rightarrow> int" where
  "digitVal c = int (of_char c) - 48"

definition trim :: "string \<Rightarrow> string" where
  "trim s = rev (dropWhile isWhite (rev (dropWhile isWhite s)))"

text \<open>\<^verbatim>\<open>s || d\<close> for a string that may be undefined: undefined and the empty string are falsy.\<close>

definition or_str :: "string option \<Rightarrow> string \<Rightarrow> string" where
  "or_str s d = (case s of None \<Rightarrow> d | Some t \<Rightarrow> if t = [] then d else t)"

text \<open>A value interpolated into a template literal: undefined prints as \<^verbatim>\<open>undefined\<close>.\<close>

definition tmpl :: "string option \<Rightarrow> string" where
  "tmpl s = (case s of None \<Rightarrow> ''undefined'' | Some t \<Rightarrow> t)"

definition startsWith :: "string \<Rightarrow> string \<Rightarrow> bool" where
  "startsWith s p = (take (length p) s = p)"

text \<open>
  \<^verbatim>\<open>parseInt(s, 10)\<close>: leading white space is skipped, one sign is read, then the longest
  run of decimal digits; no digit gives \<^verbatim>\<open>NaN\<close>. An undefined argument is the string
  \<^verbatim>\<open>undefined\<close>, which has no digit.
\<close>

definition parseInt :: "string option \<Rightarrow> jsnum" where
  "parseInt a =
     (case a of
        None \<Rightarrow> NaN
      | Some s \<Rightarrow>
          (let t = dropWhile isWhite s;
               neg = (t \<noteq> [] \<and> hd t = CHR ''-'');
               u = (if t \<noteq> [] \<and> (hd t = CHR ''-'' \<or> hd t = CHR ''+'') then tl t else t);
               z = takeWhile isDigit u
           in if z = [] then NaN
              else Num ((if neg then - 1 else 1) * foldl (\<lambda>acc c. 10 * acc + digitVal c) 0 z)))"

subsection \<open>Objects as insertion-ordered key lists\<close>

text \<open>
  \<^verbatim>\<open>selectedProducts\<close> is a plain object whose keys are \<^verbatim>\<open>shaft\<close> or contain a hyphen,
  so none of them is an array index and \<^verbatim>\<open>Object.keys\<close>/\<^verbatim>\<open>Object.values\<close> enumerate
  them in insertion order. An assignment to a present key keeps its position, an
  assignment to a new key appends, \<^verbatim>\<open>delete\<close> removes.
\<close>

fun js_get :: "(string \<times> 'p) list \<Rightarrow> string \<Rightarrow> 'p option" where
  "js_get [] k = None"
| "js_get ((k', v) # kvs) k = (if k' = k then Some v else js_get kvs k)"

fun js_set :: "string \<Rightarrow> 'p \<Rightarrow> (string \<times> 'p) list \<Rightarrow> (string \<times> 'p) list" where
  "js_set k v [] = [(k, v)]"
| "js_set k v ((k', v') # kvs) = (if k' = k then (k, v) # kvs else (k', v') # js_set k v kvs)"

fun js_delete :: "string \<Rightarrow> (string \<times> 'p) list \<Rightarrow> (string \<times> 'p) list" where
  "js_delete k [] = []"
| "js_delete k ((k', v') # kvs) = (if k' = k then js_delete k kvs else (k', v') # js_delete k kvs)"

definition js_keys :: "(string \<times> 'p) list \<Rightarrow> string list" where
  "js_keys kvs = map fst kvs"

definition js_values :: "(string \<times> 'p) list \<Rightarrow> 'p list" where
  "js_values kvs = map snd kvs"

section \<open>Data model\<close>

text \<open>A selected product, as \<^verbatim>\<open>handleProductCardClick\<close> stores it under its slot key.\<close>

record product =
  id_p :: jsnum
  title :: string
  price :: jsnum
  image_p :: string
  slotKey :: string
  quantity :: jsnum

text \<open>
  What a click handler reads from a product card: the data attributes, the value of the
  hidden variant input, the text of the title element and the source of the image.
\<close>

record card =
  productType :: "string option"
  productIndex :: "string option"
  variantId :: "string option"
  dataPrice :: "string option"
  titleText :: "string option"
  dataImage :: "string option"
  imgSrc :: "string option"

text \<open>
  The catalog read from the embedded JSON (\<^verbatim>\<open>this.data\<close>). A shaft type lists its sports
  in \<^verbatim>\<open>sportHandles\<close> (\<open>None\<close> when the field is not an array); a shaft size lists its
  variants in \<^verbatim>\<open>shafts\<close>. The older feed has one \<^verbatim>\<open>sportHandle\<close> per type and one
  \<^verbatim>\<open>shaft\<close> per size instead. Of a variant only id and price are kept: the transitions
  ask whether a size has variants, and the cards rendered from them reach the toggle as
  its input.
\<close>

record variant =
  v_id :: int
  v_price :: int

record shaft_type =
  st_handle :: string
  st_name :: string
  sportHandles :: "string list option"
  sportHandle :: "string option"

record shaft_size =
  ss_handle :: string
  ss_name :: string
  shaftTypeHandle :: string
  shafts :: "variant list option"
  shaft :: "variant option"

record catalog =
  shaftTypes :: "shaft_type list"
  shaftSizes :: "shaft_size list"

text \<open>
  The component: the chip selection (\<^verbatim>\<open>this.state\<close>), the selected products, and the
  part of the document its transitions read: the values of the chips rendered in the
  shaft-type and shaft-size containers (\<open>None\<close> when the container is missing from the
  page) and whether the shaft product display element exists.
\<close>

record 'p builder =
  sport :: "string option"
  shaftType :: "string option"
  shaftSize :: "string option"
  selectedProducts :: "(string \<times> 'p) list"
  typeChips :: "string list option"
  sizeChips :: "string list option"
  shaftDisplay :: bool

section \<open>Chip selection\<close>

definition renderShaftTypes :: "catalog \<Rightarrow> 'p builder \<Rightarrow> 'p builder" where
  "renderShaftTypes cat st =
     (case typeChips st of
        None \<Rightarrow> st
      | Some old \<Rightarrow>
          st\<lparr>typeChips := Some (map st_handle (filter
            (\<lambda>e. case sportHandles e of
                   None \<Rightarrow> False
                 | Some hs \<Rightarrow> (case sport st of None \<Rightarrow> False | Some s \<Rightarrow> s \<in> set hs))
            (shaftTypes cat)))\<rparr>)"

definition renderShaftSizes :: "catalog \<Rightarrow> 'p builder \<Rightarrow> 'p builder" where
  "renderShaftSizes cat st =
     (case sizeChips st of
        None \<Rightarrow> st
      | Some old \<Rightarrow>
          st\<lparr>sizeChips := Some (map ss_handle (filter
            (\<lambda>e. shaftType st = Some (shaftTypeHandle e)) (shaftSizes cat)))\<rparr>)"

definition clearShaftSizeChips :: "'p builder \<Rightarrow> 'p builder" where
  "clearShaftSizeChips st =
     (case sizeChips st of None \<Rightarrow> st | Some old \<Rightarrow> st\<lparr>sizeChips := Some []\<rparr>)"

definition hideShaftProduct :: "'p builder \<Rightarrow> 'p builder" where
  "hideShaftProduct st = st\<lparr>selectedProducts := js_delete ''shaft'' (selectedProducts st)\<rparr>"

text \<open>
  \<^verbatim>\<open>hideAccessoryPanels\<close> walks over the keys the object has when the loop starts and
  deletes those that start with \<^verbatim>\<open>ball-\<close> or \<^verbatim>\<open>pineapple-\<close>.
\<close>

definition isAccessoryKey :: "string \<Rightarrow> bool" where
  "isAccessoryKey k = (startsWith k ''ball-'' \<or> startsWith k ''pineapple-'')"

definition hideAccessoryPanels :: "'p builder \<Rightarrow> 'p builder" where
  "hideAccessoryPanels st =
     st\<lparr>selectedProducts :=
          foldl (\<lambda>obj k. if isAccessoryKey k then js_delete k obj else obj)
            (selectedProducts st) (js_keys (selectedProducts st))\<rparr>"

definition renderShaftProduct :: "catalog \<Rightarrow> 'p builder \<Rightarrow> 'p builder" where
  "renderShaftProduct cat st =
     (let sizeData = find (\<lambda>e. shaftSize st = Some (ss_handle e)) (shaftSizes cat)
      in if \<not> shaftDisplay st then st
         else (case sizeData of
                 None \<Rightarrow> hideShaftProduct st
               | Some sd \<Rightarrow>
                   (case shafts sd of
                      None \<Rightarrow> hideShaftProduct st
                    | Some vs \<Rightarrow>
                        if vs = [] then hideShaftProduct st
                        else st\<lparr>selectedProducts := js_delete ''shaft'' (selectedProducts st)\<rparr>)))"

text \<open>
  \<^verbatim>\<open>handleChipClick(chip)\<close> with \<^verbatim>\<open>chip.dataset.field\<close> and \<^verbatim>\<open>chip.dataset.value\<close>;
  every chip carries a value. Calls that only change visibility, headings or CSS classes
  (\<^verbatim>\<open>hideStep\<close>, \<^verbatim>\<open>showAccessoryPanels\<close>, \<^verbatim>\<open>updateStepTitles\<close>) leave this state alone and
  do not appear; \<^verbatim>\<open>updateSummary\<close> is the derived view defined further down.
\<close>

definition handleChipClick :: "catalog \<Rightarrow> 'p builder \<Rightarrow> string option \<Rightarrow> string \<Rightarrow> 'p builder" where
  "handleChipClick cat st field v =
     (if field = Some ''sport'' then
        hideAccessoryPanels (hideShaftProduct (clearShaftSizeChips (renderShaftTypes cat
          (st\<lparr>sport := Some v, shaftType := None, shaftSize := None,
              selectedProducts := js_delete ''shaft'' (selectedProducts st)\<rparr>))))
      else if field = Some ''shaft-type'' then
        hideAccessoryPanels (hideShaftProduct (renderShaftSizes cat
          (st\<lparr>shaftType := Some v, shaftSize := None,
              selectedProducts := js_delete ''shaft'' (selectedProducts st)\<rparr>)))
      else if field = Some ''shaft-size'' then
        renderShaftProduct cat (st\<lparr>shaftSize := Some v\<rparr>)
      else st)"

section \<open>Product card toggle\<close>

definition handleProductCardClick :: "product builder \<Rightarrow> card \<Rightarrow> product builder" where
  "handleProductCardClick st c =
     (case variantId c of
        None \<Rightarrow> st
      | Some vid \<Rightarrow>
          if vid = [] then st
          else
            (let prc = parseInt (Some (or_str (dataPrice c) ''0''));
                 ttl = or_str (map_option trim (titleText c)) [];
                 rawImage = or_str (dataImage c) (or_str (imgSrc c) []);
                 sel = selectedProducts st
             in if productType c = Some ''shaft'' then
                  (let clickedId = parseInt (Some vid);
                       alreadySelected =
                         (case js_get sel ''shaft'' of
                            None \<Rightarrow> False
                          | Some p \<Rightarrow> strict_eq (id_p p) clickedId)
                   in if alreadySelected then st\<lparr>selectedProducts := js_delete ''shaft'' sel\<rparr>
                      else st\<lparr>selectedProducts := js_set ''shaft''
                             \<lparr>id_p = clickedId, title = ttl, price = prc, image_p = rawImage,
                              slotKey = ''shaft'', quantity = Num 1\<rparr> sel\<rparr>)
                else
                  (let key = tmpl (productType c) @ ''-'' @ tmpl (productIndex c)
                   in (case js_get sel key of
                         Some p \<Rightarrow> st\<lparr>selectedProducts := js_delete key sel\<rparr>
                       | None \<Rightarrow>
                           st\<lparr>selectedProducts := js_set key
                             \<lparr>id_p = parseInt (Some vid), title = ttl, price = prc,
                              image_p = rawImage, slotKey = key, quantity = Num 1\<rparr> sel\<rparr>))))"

definition handleRemoveFromSummary :: "'p builder \<Rightarrow> string option \<Rightarrow> 'p builder" where
  "handleRemoveFromSummary st k =
     (case k of
        None \<Rightarrow> st
      | Some key \<Rightarrow>
          if key = [] then st
          else st\<lparr>selectedProducts := js_delete key (selectedProducts st)\<rparr>)"

section \<open>Quantity buttons\<close>

text \<open>
  A quantity button carries \<^verbatim>\<open>data-slot-key\<close> and \<^verbatim>\<open>data-qty-change\<close>; the buttons the
  summary renders carry the changes \<^verbatim>\<open>-1\<close> and \<^verbatim>\<open>1\<close>. The quantity is written into the
  stored product, which keeps its place in the object. Property names every object
  inherits (\<^verbatim>\<open>toString\<close> and the like) are not slot keys and are left out.
\<close>

record qty_button =
  dataSlotKey :: "string option"
  dataQtyChange :: "string option"

definition handleQtyChange :: "product builder \<Rightarrow> qty_button \<Rightarrow> product builder" where
  "handleQtyChange st b =
     (let delta = parseInt (dataQtyChange b)
      in (case dataSlotKey b of
            None \<Rightarrow> st
          | Some key \<Rightarrow>
              if key = [] then st
              else (case js_get (selectedProducts st) key of
                      None \<Rightarrow> st
                    | Some p \<Rightarrow>
                        (let newQty = js_add (or_num (quantity p) 1) delta
                         in if js_lt newQty 1 then st
                            else st\<lparr>selectedProducts :=
                                   js_set key (p\<lparr>quantity := newQty\<rparr>) (selectedProducts st)\<rparr>))))"

section \<open>Summary\<close>

text \<open>
  What \<^verbatim>\<open>updateSummary\<close> renders into the summary element of the page, as numbers rather
  than markup: per product the slot key on its buttons, the title, the displayed quantity
  \<^verbatim>\<open>qty\<close> and the displayed price \<^verbatim>\<open>(product.price || 0) * qty\<close>; the total; the number of
  entries on the button label. It reads the selected products and writes to the document
  only, so the handlers above do not mention it.
\<close>

record summary_item =
  item_slotKey :: string
  item_title :: string
  item_qty :: int
  item_price :: int

record summary =
  hasItems :: bool
  summaryItems :: "summary_item list"
  totalPrice :: int
  itemCount :: nat

definition qty :: "product \<Rightarrow> int" where
  "qty p = or_num (quantity p) 1"

definition unitPrice :: "product \<Rightarrow> int" where
  "unitPrice p = or_num (price p) 0"

definition summaryItem :: "product \<Rightarrow> summary_item" where
  "summaryItem p =
     \<lparr>item_slotKey = slotKey p, item_title = title p, item_qty = qty p,
      item_price = or_num (price p) 0 * qty p\<rparr>"

definition updateSummary :: "product builder \<Rightarrow> summary" where
  "updateSummary st =
     (let entries = js_values (selectedProducts st)
      in \<lparr>hasItems = (length entries > 0),
          summaryItems = map summaryItem entries,
          totalPrice = foldl (\<lambda>sum p. sum + or_num (price p) 0 * or_num (quantity p) 1) 0 entries,
          itemCount = length entries\<rparr>)"

section \<open>Add to cart\<close>

text \<open>
  The cart service is the environment: what the add request and the cart read answer is
  an argument. \<open>AddResponse ok parsed\<close> is a response with \<^verbatim>\<open>response.ok = ok\<close> whose body
  parses when \<open>parsed\<close> holds. The outcome names the three button labels:
  \<^verbatim>\<open>Select products first\<close>, \<^verbatim>\<open>Added!\<close> (with the cart's item count) and
  \<^verbatim>\<open>Error - Try Again\<close>. The result also lists the requests sent, and the state is the
  one after the timers have run: \<^verbatim>\<open>resetBuilder\<close> follows a successful submission. The
  listeners notified after the cart read are taken not to throw; clicks that arrive while
  a submission is in flight are not part of this function.
\<close>

datatype add_reply = AddRejected | AddResponse bool bool

datatype cart_reply = CartRejected | CartUnparsed | CartRead int

datatype request = AddItems "(jsnum \<times> int) list" | ReadCart

datatype submit_result = NothingSelected | Added int | Failed

definition cartItems :: "product builder \<Rightarrow> (jsnum \<times> int) list" where
  "cartItems st =
     map (\<lambda>p. (id_p p, or_num (quantity p) 1))
       (filter (\<lambda>p. truthy (id_p p)) (js_values (selectedProducts st)))"

definition resetBuilder :: "'p builder \<Rightarrow> 'p builder" where
  "resetBuilder st =
     hideAccessoryPanels (hideShaftProduct (clearShaftSizeChips
       (st\<lparr>sport := None, shaftType := None, shaftSize := None, selectedProducts := []\<rparr>)))"

definition handleAddToCart ::
  "product builder \<Rightarrow> add_reply \<Rightarrow> cart_reply \<Rightarrow> submit_result \<times> request list \<times> product builder" where
  "handleAddToCart st add cart =
     (let items = cartItems st
      in if items = [] then (NothingSelected, [], st)
         else (case add of
                 AddRejected \<Rightarrow> (Failed, [AddItems items], st)
               | AddResponse ok parsed \<Rightarrow>
                   if \<not> ok then (Failed, [AddItems items], st)
                   else if \<not> parsed then (Failed, [AddItems items], st)
                   else (case cart of
                           CartRejected \<Rightarrow> (Failed, [AddItems items, ReadCart], st)
                         | CartUnparsed \<Rightarrow> (Failed, [AddItems items, ReadCart], st)
                         | CartRead n \<Rightarrow>
                             (Added n, [AddItems items, ReadCart], resetBuilder st))))"

section \<open>Sequences of chip clicks\<close>

text \<open>
  A chip click names its field and value. A shaft-type or shaft-size chip can be
  clicked when it is among the chips last rendered into its container; the sport chips
  are part of the page.
\<close>

datatype event = ChooseSport string | ChooseShaftType string | ChooseShaftSize string

fun offered :: "'p builder \<Rightarrow> event \<Rightarrow> bool" where
  "offered st (ChooseSport v) = True"
| "offered st (ChooseShaftType v) = (case typeChips st of None \<Rightarrow> False | Some vs \<Rightarrow> v \<in> set vs)"
| "offered st (ChooseShaftSize v) = (case sizeChips st of None \<Rightarrow> False | Some vs \<Rightarrow> v \<in> set vs)"

fun clickChip :: "catalog \<Rightarrow> 'p builder \<Rightarrow> event \<Rightarrow> 'p builder" where
  "clickChip cat st (ChooseSport v) = handleChipClick cat st (Some ''sport'') v"
| "clickChip cat st (ChooseShaftType v) = handleChipClick cat st (Some ''shaft-type'') v"
| "clickChip cat st (ChooseShaftSize v) = handleChipClick cat st (Some ''shaft-size'') v"

text \<open>The states after each click of a sequence; \<open>None\<close> when a click is on a chip not offered.\<close>

fun run :: "catalog \<Rightarrow> 'p builder \<Rightarrow> event list \<Rightarrow> 'p builder list option" where
  "run cat st [] = Some []"
| "run cat st (e # es) =
     (if offered st e
      then (case run cat (clickChip cat st e) es of
              None \<Rightarrow> None
            | Some sts \<Rightarrow> Some (clickChip cat st e # sts))
      else None)"

text \<open>The component as the constructor leaves it, on a page with empty chip containers.\<close>

definition newBuilder :: "bool \<Rightarrow> 'p builder" where
  "newBuilder display =
     \<lparr>sport = None, shaftType = None, shaftSize = None, selectedProducts = [],
      typeChips = Some [], sizeChips = Some [], shaftDisplay = display\<rparr>"

text \<open>
  The invariant of the selection path: a chosen shaft type is a catalog type offered for
  the chosen sport, a chosen shaft size is a catalog size of the chosen shaft type.
\<close>

definition typeForSport :: "catalog \<Rightarrow> string \<Rightarrow> string \<Rightarrow> bool" where
  "typeForSport cat s t =
     (\<exists>e \<in> set (shaftTypes cat). st_handle e = t \<and>
        (case sportHandles e of None \<Rightarrow> False | Some hs \<Rightarrow> s \<in> set hs))"

definition sizeForType :: "catalog \<Rightarrow> string \<Rightarrow> string \<Rightarrow> bool" where
  "sizeForType cat t z = (\<exists>e \<in> set (shaftSizes cat). ss_handle e = z \<and> shaftTypeHandle e = t)"

definition path_inv :: "catalog \<Rightarrow> 'p builder \<Rightarrow> bool" where
  "path_inv cat st =
     ((case shaftType st of
         None \<Rightarrow> True
       | Some t \<Rightarrow> (case sport st of None \<Rightarrow> False | Some s \<Rightarrow> typeForSport cat s t)) \<and>
      (case shaftSize st of
         None \<Rightarrow> True
       | Some z \<Rightarrow> (case shaftType st of None \<Rightarrow> False | Some t \<Rightarrow> sizeForType cat t z)))"

text \<open>The rendered chips agree with the path: what makes the invariant inductive.\<close>

definition chips_inv :: "catalog \<Rightarrow> 'p builder \<Rightarrow> bool" where
  "chips_inv cat st =
     ((case typeChips st of
         None \<Rightarrow> True
       | Some vs \<Rightarrow>
           list_all (\<lambda>v. case sport st of None \<Rightarrow> False | Some s \<Rightarrow> typeForSport cat s v) vs) \<and>
      (case sizeChips st of
         None \<Rightarrow> True
       | Some vs \<Rightarrow>
           list_all (\<lambda>v. case shaftType st of None \<Rightarrow> False | Some t \<Rightarrow> sizeForType cat t v) vs))"

section \<open>The older component (assets/system-builder.js)\<close>

text \<open>
  The repository also holds an older copy of the component: one shaft per size
  (\<^verbatim>\<open>sizeData.shaft\<close>), one sport per shaft type (\<^verbatim>\<open>st.sportHandle\<close>), products without a
  quantity, and one toggle rule for every slot. Its functions that differ are given
  here; \<^verbatim>\<open>renderShaftSizes\<close>, \<^verbatim>\<open>hideShaftProduct\<close>, \<^verbatim>\<open>clearShaftSizeChips\<close> and
  \<^verbatim>\<open>hideAccessoryPanels\<close> are the same in both.
\<close>

record product_legacy =
  id_l :: jsnum
  title_l :: string
  price_l :: jsnum
  image_l :: string
  slotKey_l :: string

definition renderShaftTypes_legacy :: "catalog \<Rightarrow> 'p builder \<Rightarrow> 'p builder" where
  "renderShaftTypes_legacy cat st =
     (case typeChips st of
        None \<Rightarrow> st
      | Some old \<Rightarrow>
          st\<lparr>typeChips := Some (map st_handle (filter
            (\<lambda>e. case sport st of None \<Rightarrow> False | Some s \<Rightarrow> sportHandle e = Some s)
            (shaftTypes cat)))\<rparr>)"

definition renderShaftProduct_legacy :: "catalog \<Rightarrow> 'p builder \<Rightarrow> 'p builder" where
  "renderShaftProduct_legacy cat st =
     (let sizeData = find (\<lambda>e. shaftSize st = Some (ss_handle e)) (shaftSizes cat)
      in if \<not> shaftDisplay st then st
         else (case sizeData of
                 None \<Rightarrow> hideShaftProduct st
               | Some sd \<Rightarrow> (case shaft sd of None \<Rightarrow> hideShaftProduct st | Some v \<Rightarrow> st)))"

definition handleChipClick_legacy ::
  "catalog \<Rightarrow> 'p builder \<Rightarrow> string option \<Rightarrow> string \<Rightarrow> 'p builder" where
  "handleChipClick_legacy cat st field v =
     (if field = Some ''sport'' then
        hideAccessoryPanels (hideShaftProduct (clearShaftSizeChips (renderShaftTypes_legacy cat
          (st\<lparr>sport := Some v, shaftType := None, shaftSize := None,
              selectedProducts := js_delete ''shaft'' (selectedProducts st)\<rparr>))))
      else if field = Some ''shaft-type'' then
        hideAccessoryPanels (hideShaftProduct (renderShaftSizes cat
          (st\<lparr>shaftType := Some v, shaftSize := None,
              selectedProducts := js_delete ''shaft'' (selectedProducts st)\<rparr>)))
      else if field = Some ''shaft-size'' then
        renderShaftProduct_legacy cat (st\<lparr>shaftSize := Some v\<rparr>)
      else st)"

definition handleProductCardClick_legacy ::
  "product_legacy builder \<Rightarrow> card \<Rightarrow> product_legacy builder" where
  "handleProductCardClick_legacy st c =
     (let key = (if productType c = Some ''shaft'' then ''shaft''
                 else tmpl (productType c) @ ''-'' @ tmpl (productIndex c))
      in (case variantId c of
            None \<Rightarrow> st
          | Some vid \<Rightarrow>
              if vid = [] then st
              else
                (let prc = parseInt (Some (or_str (dataPrice c) ''0''));
                     ttl = or_str (map_option trim (titleText c)) [];
                     sel = selectedProducts st
                 in (case js_get sel key of
                       Some p \<Rightarrow> st\<lparr>selectedProducts := js_delete key sel\<rparr>
                     | None \<Rightarrow>
                         st\<lparr>selectedProducts := js_set key
                           \<lparr>id_l = parseInt (Some vid), title_l = ttl, price_l = prc,
                            image_l = or_str (imgSrc c) [], slotKey_l = key\<rparr> sel\<rparr>))))"

section \<open>An example page\<close>

text \<open>
  A small catalog for concrete runs: sport \<^verbatim>\<open>baseball\<close>, shaft type \<^verbatim>\<open>alloy\<close>, and the
  sizes \<^verbatim>\<open>31in\<close> (variants 111 at 29900 and 113 at 31900; the older feed carries 111
  alone) and \<^verbatim>\<open>32in\<close> (variant 112 at 30900); the cards the page shows for a shaft
  variant and for an accessory.
\<close>

definition exampleCatalog :: catalog where
  "exampleCatalog =
     \<lparr>shaftTypes =
        [\<lparr>st_handle = ''alloy'', st_name = ''Alloy'', sportHandles = Some [''baseball''],
          sportHandle = Some ''baseball''\<rparr>],
      shaftSizes =
        [\<lparr>ss_handle = ''31in'', ss_name = ''31 in'', shaftTypeHandle = ''alloy'',
          shafts = Some [\<lparr>v_id = 111, v_price = 29900\<rparr>, \<lparr>v_id = 113, v_price = 31900\<rparr>],
          shaft = Some \<lparr>v_id = 111, v_price = 29900\<rparr>\<rparr>,
         \<lparr>ss_handle = ''32in'', ss_name = ''32 in'', shaftTypeHandle = ''alloy'',
          shafts = Some [\<lparr>v_id = 112, v_price = 30900\<rparr>],
          shaft = Some \<lparr>v_id = 112, v_price = 30900\<rparr>\<rparr>]\<rparr>"

definition shaftCard :: "string \<Rightarrow> string \<Rightarrow> card" where
  "shaftCard vid prc =
     \<lparr>productType = Some ''shaft'', productIndex = None, variantId = Some vid,
      dataPrice = Some prc, titleText = Some ''Shaft'', dataImage = None, imgSrc = None\<rparr>"

definition accessoryCard :: "string \<Rightarrow> string \<Rightarrow> string \<Rightarrow> string \<Rightarrow> card" where
  "accessoryCard ty idx vid prc =
     \<lparr>productType = Some ty, productIndex = Some idx, variantId = Some vid,
      dataPrice = Some prc, titleText = Some ''Accessory'', dataImage = None, imgSrc = None\<rparr>"

text \<open>
  Scenario A: baseball, alloy, 31in, then the shaft card of variant 111. Scenario B adds
  the accessory card \<^verbatim>\<open>ball-0\<close> of variant 222 at 500.
\<close>

definition scenarioA :: "product builder" where
  "scenarioA =
     handleProductCardClick
       (handleChipClick exampleCatalog
         (handleChipClick exampleCatalog
           (handleChipClick exampleCatalog (newBuilder True) (Some ''sport'') ''baseball'')
           (Some ''shaft-type'') ''alloy'')
         (Some ''shaft-size'') ''31in'')
       (shaftCard ''111'' ''29900'')"

definition scenarioB :: "product builder" where
  "scenarioB = handleProductCardClick scenarioA (accessoryCard ''ball'' ''0'' ''222'' ''500'')"

text \<open>The same clicks as scenario A on the older component.\<close>

definition scenarioA_legacy :: "product_legacy builder" where
  "scenarioA_legacy =
     handleProductCardClick_legacy
       (handleChipClick_legacy exampleCatalog
         (handleChipClick_legacy exampleCatalog
           (handleChipClick_legacy exampleCatalog (newBuilder True) (Some ''sport'') ''baseball'')
           (Some ''shaft-type'') ''alloy'')
         (Some ''shaft-size'') ''31in'')
       (shaftCard ''111'' ''29900'')"

text \<open>
  Scenario C: on top of scenario B the accessory cards \<^verbatim>\<open>ball-1\<close> and \<^verbatim>\<open>pineapple-0\<close>,
  and one click on the plus button of \<^verbatim>\<open>ball-1\<close>.
\<close>

definition plusButton :: "string \<Rightarrow> qty_button" where
  "plusButton key = \<lparr>dataSlotKey = Some key, dataQtyChange = Some ''1''\<rparr>"

definition minusButton :: "string \<Rightarrow> qty_button" where
  "minusButton key = \<lparr>dataSlotKey = Some key, dataQtyChange = Some ''-1''\<rparr>"

definition scenarioC :: "product builder" where
  "scenarioC =
     handleQtyChange
       (handleProductCardClick
         (handleProductCardClick scenarioB (accessoryCard ''ball'' ''1'' ''223'' ''600''))
         (accessoryCard ''pineapple'' ''0'' ''224'' ''900''))
       (plusButton ''ball-1'')"

text \<open>A page whose shaft card carries the variant id \<^verbatim>\<open>abc\<close>, clicked on the fresh component.\<close>

definition scenarioNaN :: "product builder" where
  "scenarioNaN = handleProductCardClick (newBuilder True) (shaftCard ''abc'' ''29900'')"

definition exampleClicks :: "event list" where
  "exampleClicks =
     [ChooseSport ''baseball'', ChooseShaftType ''alloy'', ChooseShaftSize ''31in'',
      ChooseShaftSize ''32in'', ChooseSport ''softball'']"

section \<open>Facts about objects\<close>

lemma js_get_delete_same: "js_get (js_delete k kvs) k = None"
  by (induction kvs) auto

lemma js_get_delete_other: "k' \<noteq> k \<Longrightarrow> js_get (js_delete k kvs) k' = js_get kvs k'"
  by (induction kvs) auto

lemma js_get_set_same: "js_get (js_set k v kvs) k = Some v"
  by (induction kvs) auto

lemma js_get_set_other: "k' \<noteq> k \<Longrightarrow> js_get (js_set k v kvs) k' = js_get kvs k'"
  by (induction kvs) auto

lemma js_delete_filter: "js_delete k kvs = filter (\<lambda>kv. fst kv \<noteq> k) kvs"
  by (induction kvs) auto

lemma js_delete_absent: "js_get kvs k = None \<Longrightarrow> js_delete k kvs = kvs"
  by (induction kvs) (auto split: if_splits)

lemma js_set_absent: "js_get kvs k = None \<Longrightarrow> js_set k v kvs = kvs @ [(k, v)]"
  by (induction kvs) (auto split: if_splits)


lemma js_set_others: "filter (\<lambda>kv. fst kv \<noteq> k) (js_set k v kvs) = filter (\<lambda>kv. fst kv \<noteq> k) kvs"
  by (induction kvs) auto

lemma js_delete_others: "filter (\<lambda>kv. fst kv \<noteq> k) (js_delete k kvs) = filter (\<lambda>kv. fst kv \<noteq> k) kvs"
  by (simp add: js_delete_filter)

lemma js_get_filter:
  "js_get (filter (\<lambda>kv. Q (fst kv)) kvs) k = (if Q k then js_get kvs k else None)"
  by (induction kvs) auto

text \<open>Deleting every key of a list that satisfies \<open>P\<close>, one at a time, is one filter.\<close>

lemma fold_delete_filter:
  "foldl (\<lambda>obj k. if P k then js_delete k obj else obj) kvs ks
     = filter (\<lambda>kv. \<not> (P (fst kv) \<and> fst kv \<in> set ks)) kvs"
proof (induction ks arbitrary: kvs)
  case Nil
  then show ?case by simp
next
  case (Cons k ks)
  show ?case
  proof (cases "P k")
    case True
    have "foldl (\<lambda>obj k. if P k then js_delete k obj else obj) kvs (k # ks)
            = filter (\<lambda>kv. \<not> (P (fst kv) \<and> fst kv \<in> set ks)) (js_delete k kvs)"
      using True Cons.IH by simp
    also have "\<dots> = filter (\<lambda>kv. \<not> (P (fst kv) \<and> fst kv \<in> set (k # ks))) kvs"
      using True by (auto simp: js_delete_filter intro: filter_cong)
    finally show ?thesis .
  next
    case False
    then show ?thesis using Cons.IH by (auto intro: filter_cong)
  qed
qed

lemma hideAccessoryPanels_filter:
  "selectedProducts (hideAccessoryPanels st)
     = filter (\<lambda>kv. \<not> isAccessoryKey (fst kv)) (selectedProducts st)"
  by (auto simp: hideAccessoryPanels_def fold_delete_filter js_keys_def intro: filter_cong)


lemma js_get_map_of: "js_get kvs k = map_of kvs k"
  by (induction kvs) auto

lemma js_get_values: "js_get kvs k = Some v \<Longrightarrow> v \<in> set (js_values kvs)"
  by (induction kvs) (auto simp: js_values_def split: if_splits)

lemma js_keys_set_present: "js_get kvs k = Some w \<Longrightarrow> js_keys (js_set k v kvs) = js_keys kvs"
  by (induction kvs) (auto simp: js_keys_def split: if_splits)

text \<open>With distinct keys, the length of the list is the number of occupied slots.\<close>

lemma occupied_slots:
  "distinct (js_keys kvs) \<Longrightarrow> length kvs = card {k. js_get kvs k \<noteq> None}"
proof -
  assume d: "distinct (js_keys kvs)"
  have "{k. js_get kvs k \<noteq> None} = dom (map_of kvs)"
    by (auto simp: js_get_map_of)
  also have "\<dots> = set (js_keys kvs)"
    by (simp add: dom_map_of_conv_image_fst js_keys_def)
  finally have "card {k. js_get kvs k \<noteq> None} = length (js_keys kvs)"
    using d by (simp add: distinct_card)
  then show ?thesis by (simp add: js_keys_def)
qed

lemma js_keys_js_set: "set (js_keys (js_set k v kvs)) = insert k (set (js_keys kvs))"
  by (induction k v kvs rule: js_set.induct) (auto simp: js_keys_def)

lemma distinct_js_set: "distinct (js_keys kvs) \<Longrightarrow> distinct (js_keys (js_set k v kvs))"
proof (induction kvs)
  case Nil
  then show ?case by (simp add: js_keys_def)
next
  case (Cons kv kvs)
  obtain k' v' where kv: "kv = (k', v')" by (cases kv)
  show ?case
  proof (cases "k' = k")
    case True
    with Cons.prems kv show ?thesis by (simp add: js_keys_def)
  next
    case False
    from Cons.prems kv have d: "distinct (js_keys kvs)" and n: "k' \<notin> set (js_keys kvs)"
      by (simp_all add: js_keys_def)
    from n False have "k' \<notin> set (js_keys (js_set k v kvs))"
      by (simp add: js_keys_js_set)
    with Cons.IH [OF d] False kv show ?thesis
      by (simp add: js_keys_def)
  qed
qed

lemma distinct_filter_keys: "distinct (js_keys kvs) \<Longrightarrow> distinct (js_keys (filter P kvs))"
  by (simp add: js_keys_def distinct_map_filter)

lemma distinct_js_delete: "distinct (js_keys kvs) \<Longrightarrow> distinct (js_keys (js_delete k kvs))"
  by (simp add: js_delete_filter distinct_filter_keys)

section \<open>Facts about numbers and strings\<close>

lemma parseInt_None: "parseInt None = NaN"
  by (simp add: parseInt_def)



lemma or_num_Num: "or_num (Num n) 0 = n"
  by (simp add: or_num_def)

lemma or_num_qty: "1 \<le> q \<Longrightarrow> or_num (Num q) 1 = q"
  by (simp add: or_num_def)

lemma foldl_total:
  "foldl (\<lambda>sum p. sum + f p) a ps = a + sum_list (map f ps)" for a :: int
  by (induction ps arbitrary: a) auto

section \<open>Choosing a shaft size\<close>

text \<open>
  In the current component a click on a shaft-size chip empties the shaft slot whenever
  the page has the shaft product display: either the size has no shafts and
  \<^verbatim>\<open>hideShaftProduct\<close> deletes the entry, or the cards are rendered after the entry is
  deleted.
\<close>

lemma shaft_size_click_clears_shaft:
  "shaftDisplay st \<Longrightarrow>
   js_get (selectedProducts (handleChipClick cat st (Some ''shaft-size'') v)) ''shaft'' = None"
  by (simp add: handleChipClick_def renderShaftProduct_def hideShaftProduct_def Let_def
      js_get_delete_same split: option.splits)

lemma shaft_size_click_clears_shaft_witness:
  "shaftDisplay scenarioA \<and>
   js_get (selectedProducts scenarioA) ''shaft'' \<noteq> None \<and>
   js_get (selectedProducts (handleChipClick exampleCatalog scenarioA (Some ''shaft-size'') ''31in''))
     ''shaft'' = None"
proof -
  have d: "shaftDisplay scenarioA"
    by code_simp
  have s: "js_get (selectedProducts scenarioA) ''shaft'' \<noteq> None"
    by code_simp
  from shaft_size_click_clears_shaft [OF d, of exampleCatalog "''31in''"] d s
  show ?thesis by simp
qed

text \<open>
  The older component keeps the selected products on such a click whenever the chosen size
  has a shaft: it deletes the shaft entry only together with the display of a size
  without one.
\<close>

lemma legacy_size_click_keeps_selection:
  "shaftDisplay st \<Longrightarrow> find (\<lambda>e. v = ss_handle e) (shaftSizes cat) = Some sd \<Longrightarrow>
   shaft sd = Some x \<Longrightarrow>
   selectedProducts (handleChipClick_legacy cat st (Some ''shaft-size'') v) = selectedProducts st"
  by (simp add: handleChipClick_legacy_def renderShaftProduct_legacy_def)

text \<open>
  C1. Choosing a shaft size clears the shaft slot, whatever was selected before. The
  older component does not: after scenario A a click on the size chip \<^verbatim>\<open>32in\<close> renders
  the card of variant 112 as selected and leaves variant 111 of size \<^verbatim>\<open>31in\<close> in the
  shaft slot, from where it goes to the cart.
\<close>

theorem C1_legacy_size_change_keeps_shaft:
  "js_get (selectedProducts
     (handleChipClick_legacy exampleCatalog scenarioA_legacy (Some ''shaft-size'') ''32in''))
     ''shaft''
   = Some \<lparr>id_l = Num 111, title_l = ''Shaft'', price_l = Num 29900, image_l = [],
           slotKey_l = ''shaft''\<rparr>"
  by code_simp

section \<open>Toggles without a variant id\<close>

text \<open>
  C8. A click on a product card whose variant id cannot be read (the card has no variant
  input, or its value is empty) changes nothing: the handler returns before it touches
  the selected products, and it raises no error.
\<close>

theorem C8_toggle_without_variant_id_is_noop:
  "variantId c = None \<or> variantId c = Some [] \<Longrightarrow> handleProductCardClick st c = st"
  by (auto simp: handleProductCardClick_def)

theorem C8_toggle_without_variant_id_witness:
  "variantId (shaftCard [] ''29900'') = Some [] \<and>
   handleProductCardClick scenarioB (shaftCard [] ''29900'') = scenarioB"
  using C8_toggle_without_variant_id_is_noop [of "shaftCard [] ''29900''" scenarioB]
  by (simp add: shaftCard_def)

section \<open>The selection path\<close>

lemma hideAccessoryPanels_path [simp]:
  "sport (hideAccessoryPanels st) = sport st"
  "shaftType (hideAccessoryPanels st) = shaftType st"
  "shaftSize (hideAccessoryPanels st) = shaftSize st"
  "typeChips (hideAccessoryPanels st) = typeChips st"
  "sizeChips (hideAccessoryPanels st) = sizeChips st"
  "shaftDisplay (hideAccessoryPanels st) = shaftDisplay st"
  by (simp_all add: hideAccessoryPanels_def)

lemma hideShaftProduct_path [simp]:
  "sport (hideShaftProduct st) = sport st"
  "shaftType (hideShaftProduct st) = shaftType st"
  "shaftSize (hideShaftProduct st) = shaftSize st"
  "typeChips (hideShaftProduct st) = typeChips st"
  "sizeChips (hideShaftProduct st) = sizeChips st"
  "shaftDisplay (hideShaftProduct st) = shaftDisplay st"
  by (simp_all add: hideShaftProduct_def)

lemma renderShaftProduct_path [simp]:
  "sport (renderShaftProduct cat st) = sport st"
  "shaftType (renderShaftProduct cat st) = shaftType st"
  "shaftSize (renderShaftProduct cat st) = shaftSize st"
  "typeChips (renderShaftProduct cat st) = typeChips st"
  "sizeChips (renderShaftProduct cat st) = sizeChips st"
  "shaftDisplay (renderShaftProduct cat st) = shaftDisplay st"
  by (simp_all add: renderShaftProduct_def Let_def split: option.splits)

lemma clearShaftSizeChips_path [simp]:
  "sport (clearShaftSizeChips st) = sport st"
  "shaftType (clearShaftSizeChips st) = shaftType st"
  "shaftSize (clearShaftSizeChips st) = shaftSize st"
  "typeChips (clearShaftSizeChips st) = typeChips st"
  "sizeChips (clearShaftSizeChips st) = map_option (\<lambda>old. []) (sizeChips st)"
  "shaftDisplay (clearShaftSizeChips st) = shaftDisplay st"
  "selectedProducts (clearShaftSizeChips st) = selectedProducts st"
  by (simp_all add: clearShaftSizeChips_def split: option.splits)

lemma renderShaftTypes_path [simp]:
  "sport (renderShaftTypes cat st) = sport st"
  "shaftType (renderShaftTypes cat st) = shaftType st"
  "shaftSize (renderShaftTypes cat st) = shaftSize st"
  "sizeChips (renderShaftTypes cat st) = sizeChips st"
  "shaftDisplay (renderShaftTypes cat st) = shaftDisplay st"
  "selectedProducts (renderShaftTypes cat st) = selectedProducts st"
  by (simp_all add: renderShaftTypes_def split: option.splits)

lemma renderShaftSizes_path [simp]:
  "sport (renderShaftSizes cat st) = sport st"
  "shaftType (renderShaftSizes cat st) = shaftType st"
  "shaftSize (renderShaftSizes cat st) = shaftSize st"
  "typeChips (renderShaftSizes cat st) = typeChips st"
  "shaftDisplay (renderShaftSizes cat st) = shaftDisplay st"
  "selectedProducts (renderShaftSizes cat st) = selectedProducts st"
  by (simp_all add: renderShaftSizes_def split: option.splits)

lemma renderShaftTypes_chips:
  "typeChips (renderShaftTypes cat st) = Some vs \<Longrightarrow> sport st = Some s \<Longrightarrow>
   v \<in> set vs \<Longrightarrow> typeForSport cat s v"
  by (fastforce simp: renderShaftTypes_def typeForSport_def split: option.split_asm)

lemma renderShaftSizes_chips:
  "sizeChips (renderShaftSizes cat st) = Some vs \<Longrightarrow> shaftType st = Some t \<Longrightarrow>
   v \<in> set vs \<Longrightarrow> sizeForType cat t v"
  by (fastforce simp: renderShaftSizes_def sizeForType_def split: option.split_asm)

lemma choose_sport_inv:
  "path_inv cat (handleChipClick cat st (Some ''sport'') v) \<and>
   chips_inv cat (handleChipClick cat st (Some ''sport'') v)"
proof -
  let ?st1 = "st\<lparr>sport := Some v, shaftType := None, shaftSize := None,
              selectedProducts := js_delete ''shaft'' (selectedProducts st)\<rparr>"
  let ?st' = "handleChipClick cat st (Some ''sport'') v"
  have path: "sport ?st' = Some v" "shaftType ?st' = None" "shaftSize ?st' = None"
    by (simp_all add: handleChipClick_def)
  have tc: "typeChips ?st' = typeChips (renderShaftTypes cat ?st1)"
    by (simp add: handleChipClick_def)
  have sc: "sizeChips ?st' = map_option (\<lambda>old. []) (sizeChips st)"
    by (simp add: handleChipClick_def)
  have "path_inv cat ?st'"
    using path by (simp add: path_inv_def)
  moreover have "chips_inv cat ?st'"
    unfolding chips_inv_def tc sc path
    by (auto simp: list_all_iff split: option.splits
        intro: renderShaftTypes_chips [where st = ?st1 and cat = cat])
  ultimately show ?thesis by simp
qed

lemma choose_type_inv:
  assumes "path_inv cat st" "chips_inv cat st" "offered st (ChooseShaftType v)"
  shows "path_inv cat (handleChipClick cat st (Some ''shaft-type'') v) \<and>
         chips_inv cat (handleChipClick cat st (Some ''shaft-type'') v)"
proof -
  let ?st1 = "st\<lparr>shaftType := Some v, shaftSize := None,
              selectedProducts := js_delete ''shaft'' (selectedProducts st)\<rparr>"
  let ?st' = "handleChipClick cat st (Some ''shaft-type'') v"
  from assms(3) obtain vs where vs: "typeChips st = Some vs" "v \<in> set vs"
    by (auto split: option.splits)
  with assms(2) obtain s where s: "sport st = Some s" "typeForSport cat s v"
    by (auto simp: chips_inv_def list_all_iff split: option.splits)
  have path: "sport ?st' = Some s" "shaftType ?st' = Some v" "shaftSize ?st' = None"
    using s by (simp_all add: handleChipClick_def)
  have tc: "typeChips ?st' = typeChips st"
    by (simp add: handleChipClick_def)
  have sc: "sizeChips ?st' = sizeChips (renderShaftSizes cat ?st1)"
    by (simp add: handleChipClick_def)
  have "path_inv cat ?st'"
    using path s by (simp add: path_inv_def)
  moreover have "chips_inv cat ?st'"
    unfolding chips_inv_def tc sc path
    using assms(2) s
    by (auto simp: chips_inv_def list_all_iff split: option.splits
        intro: renderShaftSizes_chips [where st = ?st1 and cat = cat])
  ultimately show ?thesis by simp
qed

lemma choose_size_inv:
  assumes "path_inv cat st" "chips_inv cat st" "offered st (ChooseShaftSize v)"
  shows "path_inv cat (handleChipClick cat st (Some ''shaft-size'') v) \<and>
         chips_inv cat (handleChipClick cat st (Some ''shaft-size'') v)"
proof -
  let ?st' = "handleChipClick cat st (Some ''shaft-size'') v"
  from assms(3) obtain vs where vs: "sizeChips st = Some vs" "v \<in> set vs"
    by (auto split: option.splits)
  with assms(2) obtain t where t: "shaftType st = Some t" "sizeForType cat t v"
    by (auto simp: chips_inv_def list_all_iff split: option.splits)
  have path: "sport ?st' = sport st" "shaftType ?st' = Some t" "shaftSize ?st' = Some v"
    "typeChips ?st' = typeChips st" "sizeChips ?st' = sizeChips st"
    using t by (simp_all add: handleChipClick_def)
  have "path_inv cat ?st'"
    using assms(1) t unfolding path_inv_def path by (simp split: option.splits)
  moreover have "chips_inv cat ?st'"
    using assms(2) t by (auto simp: chips_inv_def path list_all_iff split: option.splits)
  ultimately show ?thesis by simp
qed

lemma clickChip_inv:
  "path_inv cat st \<Longrightarrow> chips_inv cat st \<Longrightarrow> offered st e \<Longrightarrow>
   path_inv cat (clickChip cat st e) \<and> chips_inv cat (clickChip cat st e)"
  by (cases e) (simp_all add: choose_sport_inv choose_type_inv choose_size_inv del: offered.simps)

lemma newBuilder_inv: "path_inv cat (newBuilder d) \<and> chips_inv cat (newBuilder d)"
  by (simp add: path_inv_def chips_inv_def newBuilder_def)

lemma run_keeps_path_inv:
  "path_inv cat st \<Longrightarrow> chips_inv cat st \<Longrightarrow> run cat st es = Some sts \<Longrightarrow>
   list_all (path_inv cat) sts"
proof (induction es arbitrary: st sts)
  case Nil
  then show ?case by simp
next
  case (Cons e es)
  from Cons.prems(3) have off: "offered st e"
    by (simp split: if_splits)
  with Cons.prems(3) obtain rest where rest: "run cat (clickChip cat st e) es = Some rest"
    and sts: "sts = clickChip cat st e # rest"
    by (auto split: option.splits)
  from clickChip_inv [OF Cons.prems(1,2) off]
  have inv: "path_inv cat (clickChip cat st e)" "chips_inv cat (clickChip cat st e)"
    by simp_all
  from Cons.IH [OF inv rest] inv(1) sts show ?case by simp
qed

text \<open>
  C2. Along every sequence of clicks on sport, shaft-type and shaft-size chips, each on a
  chip that is offered when it is clicked, the selection path keeps its invariant after
  every click: a chosen shaft type comes with a chosen sport and is a catalog type whose
  sport handles contain that sport; a chosen shaft size comes with a chosen shaft type
  and is a catalog size of that type. This holds for the sequences that start at the
  fresh component, and for those that start in any state in which the invariant holds
  and the rendered chips agree with the path.
\<close>

theorem C2_path_invariant_along_clicks:
  "(run cat (newBuilder d) es = Some sts \<longrightarrow> list_all (path_inv cat) sts) \<and>
   (path_inv cat st \<and> chips_inv cat st \<and> run cat st es' = Some sts' \<longrightarrow>
      list_all (path_inv cat) sts')"
  using run_keeps_path_inv [of cat "newBuilder d" es sts] run_keeps_path_inv [of cat st es' sts']
    newBuilder_inv [of cat d]
  by blast

theorem C2_path_invariant_witness:
  "\<exists>sts. run exampleCatalog (newBuilder True :: product builder) exampleClicks = Some sts \<and>
         length sts = 5 \<and> list_all (path_inv exampleCatalog) sts"
proof -
  have "run exampleCatalog (newBuilder True :: product builder) exampleClicks \<noteq> None"
    unfolding exampleClicks_def by code_simp
  then obtain sts
    where r: "run exampleCatalog (newBuilder True :: product builder) exampleClicks = Some sts"
    by auto
  have len: "length sts = 5"
    using r by (auto simp: exampleClicks_def split: if_splits option.splits)
  from C2_path_invariant_along_clicks [of exampleCatalog True exampleClicks sts] r len
  show ?thesis by blast
qed

section \<open>Choosing a sport\<close>

text \<open>
  After a click on a sport chip the selected products are the earlier ones without the
  shaft entry and without the entries whose key starts with \<^verbatim>\<open>ball-\<close> or
  \<^verbatim>\<open>pineapple-\<close>.
\<close>

lemma sport_click_selection:
  "selectedProducts (handleChipClick cat st (Some ''sport'') v)
     = filter (\<lambda>kv. fst kv \<noteq> ''shaft'' \<and> \<not> isAccessoryKey (fst kv)) (selectedProducts st)"
  by (auto simp: handleChipClick_def hideAccessoryPanels_filter hideShaftProduct_def
      js_delete_filter intro: filter_cong)

text \<open>
  The cards of the component are shaft, ball and pineapple cards. Their clicks only ever
  fill the shaft slot and slots whose key starts with \<^verbatim>\<open>ball-\<close> or \<^verbatim>\<open>pineapple-\<close>.
\<close>

lemma js_keys_js_delete: "set (js_keys (js_delete k kvs)) \<subseteq> set (js_keys kvs)"
  by (auto simp: js_delete_filter js_keys_def)

lemma accessory_card_key:
  "isAccessoryKey (''ball'' @ ''-'' @ i)" "isAccessoryKey (''pineapple'' @ ''-'' @ i)"
  by (simp_all add: isAccessoryKey_def startsWith_def)

lemma toggle_keeps_own_slot_keys:
  assumes own: "list_all (\<lambda>k. k = ''shaft'' \<or> isAccessoryKey k) (js_keys (selectedProducts st))"
    and ty: "productType c = Some ''shaft'' \<or> productType c = Some ''ball'' \<or>
             productType c = Some ''pineapple''"
  shows "list_all (\<lambda>k. k = ''shaft'' \<or> isAccessoryKey k)
           (js_keys (selectedProducts (handleProductCardClick st c)))"
proof -
  have del: "list_all (\<lambda>k. k = ''shaft'' \<or> isAccessoryKey k)
      (js_keys (js_delete k (selectedProducts st)))" for k
    using own js_keys_js_delete [of k "selectedProducts st"] by (auto simp: list_all_iff)
  have ins: "list_all (\<lambda>k. k = ''shaft'' \<or> isAccessoryKey k)
      (js_keys (js_set k p (selectedProducts st)))" if "k = ''shaft'' \<or> isAccessoryKey k" for k p
    using own that by (auto simp: list_all_iff js_keys_js_set)
  have key: "isAccessoryKey (tmpl (productType c) @ ''-'' @ tmpl (productIndex c))"
    if "productType c \<noteq> Some ''shaft''"
    using that ty accessory_card_key [of "tmpl (productIndex c)"] by (auto simp: tmpl_def)
  show ?thesis
    using own del ins key
    by (auto simp: handleProductCardClick_def Let_def split: option.splits)
qed

text \<open>
  C3. From every state, whatever the path and the selected products, a click on a sport
  chip sets the sport, leaves shaft type and shaft size unset, leaves no entry under the
  key \<^verbatim>\<open>shaft\<close> and removes every accessory slot: no key that starts with \<^verbatim>\<open>ball-\<close> or
  \<^verbatim>\<open>pineapple-\<close>, the slot keys of the two accessory panels, has an entry afterwards. When
  the selected products hold nothing but the shaft and accessory slots, as they do after
  clicks on the cards of the component, nothing is selected afterwards.
\<close>

theorem C3_choose_sport_resets_downstream:
  "sport (handleChipClick cat st (Some ''sport'') v) = Some v \<and>
   shaftType (handleChipClick cat st (Some ''sport'') v) = None \<and>
   shaftSize (handleChipClick cat st (Some ''sport'') v) = None \<and>
   js_get (selectedProducts (handleChipClick cat st (Some ''sport'') v)) ''shaft'' = None \<and>
   (\<forall>k. isAccessoryKey k \<longrightarrow>
      js_get (selectedProducts (handleChipClick cat st (Some ''sport'') v)) k = None) \<and>
   (list_all (\<lambda>k. k = ''shaft'' \<or> isAccessoryKey k) (js_keys (selectedProducts st)) \<longrightarrow>
      selectedProducts (handleChipClick cat st (Some ''sport'') v) = [])"
proof -
  let ?st' = "handleChipClick cat st (Some ''sport'') v"
  have path: "sport ?st' = Some v" "shaftType ?st' = None" "shaftSize ?st' = None"
    by (simp_all add: handleChipClick_def)
  have get: "js_get (selectedProducts ?st') k
      = (if k \<noteq> ''shaft'' \<and> \<not> isAccessoryKey k then js_get (selectedProducts st) k else None)" for k
    unfolding sport_click_selection by (rule js_get_filter)
  have shaft: "js_get (selectedProducts ?st') ''shaft'' = None"
    by (simp add: get)
  have acc: "\<forall>k. isAccessoryKey k \<longrightarrow> js_get (selectedProducts ?st') k = None"
    by (simp add: get)
  have empty: "list_all (\<lambda>k. k = ''shaft'' \<or> isAccessoryKey k) (js_keys (selectedProducts st)) \<longrightarrow>
      selectedProducts ?st' = []"
    unfolding sport_click_selection
    by (auto simp: filter_empty_conv list_all_iff js_keys_def)
  show ?thesis
    by (intro conjI path shaft acc empty)
qed

theorem C3_choose_sport_witness:
  "isAccessoryKey ''ball-0'' \<and>
   js_get (selectedProducts scenarioC) ''shaft'' \<noteq> None \<and>
   js_get (selectedProducts scenarioC) ''ball-0'' \<noteq> None \<and>
   js_keys (selectedProducts scenarioC) = [''shaft'', ''ball-0'', ''ball-1'', ''pineapple-0''] \<and>
   js_get (selectedProducts (handleChipClick exampleCatalog scenarioC (Some ''sport'') ''softball''))
     ''ball-0'' = None \<and>
   js_get (selectedProducts (handleChipClick exampleCatalog scenarioC (Some ''sport'') ''softball''))
     ''shaft'' = None \<and>
   selectedProducts (handleChipClick exampleCatalog scenarioC (Some ''sport'') ''softball'') = [] \<and>
   sport (handleChipClick exampleCatalog scenarioC (Some ''sport'') ''softball'') = Some ''softball'' \<and>
   shaftType (handleChipClick exampleCatalog scenarioC (Some ''sport'') ''softball'') = None \<and>
   shaftSize (handleChipClick exampleCatalog scenarioC (Some ''sport'') ''softball'') = None"
proof -
  have a: "isAccessoryKey ''ball-0''"
    by code_simp
  have b: "js_get (selectedProducts scenarioC) ''shaft'' \<noteq> None"
    "js_get (selectedProducts scenarioC) ''ball-0'' \<noteq> None"
    by code_simp+
  have k: "js_keys (selectedProducts scenarioC) = [''shaft'', ''ball-0'', ''ball-1'', ''pineapple-0'']"
    by code_simp
  have own: "list_all (\<lambda>k. k = ''shaft'' \<or> isAccessoryKey k) (js_keys (selectedProducts scenarioC))"
    by code_simp
  from C3_choose_sport_resets_downstream [of exampleCatalog scenarioC "''softball''"] a b k own
  show ?thesis by blast
qed

section \<open>The shaft toggle\<close>




section \<open>Accessory toggles\<close>

text \<open>
  C5. A click on an accessory card (any card whose product type is not \<^verbatim>\<open>shaft\<close>) with
  slot key \<open>K\<close>, whether it selects or deselects, leaves the entry of every other key
  as it is: present or absent, with the same variant and quantity, and in the same
  order; the selection path is untouched. For the card of \<^verbatim>\<open>ball-0\<close> this covers
  \<^verbatim>\<open>ball-1\<close> and \<^verbatim>\<open>pineapple-0\<close>.
\<close>

theorem C5_accessory_toggle_frame:
  "productType c \<noteq> Some ''shaft'' \<Longrightarrow>
   (\<forall>k. k \<noteq> tmpl (productType c) @ ''-'' @ tmpl (productIndex c) \<longrightarrow>
      js_get (selectedProducts (handleProductCardClick st c)) k = js_get (selectedProducts st) k) \<and>
   filter (\<lambda>kv. fst kv \<noteq> tmpl (productType c) @ ''-'' @ tmpl (productIndex c))
      (selectedProducts (handleProductCardClick st c))
     = filter (\<lambda>kv. fst kv \<noteq> tmpl (productType c) @ ''-'' @ tmpl (productIndex c))
         (selectedProducts st) \<and>
   sport (handleProductCardClick st c) = sport st \<and>
   shaftType (handleProductCardClick st c) = shaftType st \<and>
   shaftSize (handleProductCardClick st c) = shaftSize st"
  by (auto simp: handleProductCardClick_def Let_def js_get_delete_other js_get_set_other
      js_set_others js_delete_others split: option.splits)

theorem C5_accessory_toggle_witness:
  "productType (accessoryCard ''ball'' ''0'' ''222'' ''500'') \<noteq> Some ''shaft'' \<and>
   js_get (selectedProducts scenarioC) ''ball-1''
     = Some \<lparr>id_p = Num 223, title = ''Accessory'', price = Num 600, image_p = [],
             slotKey = ''ball-1'', quantity = Num 2\<rparr> \<and>
   js_get (selectedProducts
      (handleProductCardClick scenarioC (accessoryCard ''ball'' ''0'' ''222'' ''500''))) ''ball-1''
     = js_get (selectedProducts scenarioC) ''ball-1'' \<and>
   js_get (selectedProducts
      (handleProductCardClick scenarioC (accessoryCard ''ball'' ''0'' ''222'' ''500''))) ''pineapple-0''
     = js_get (selectedProducts scenarioC) ''pineapple-0'' \<and>
   js_get (selectedProducts
      (handleProductCardClick scenarioC (accessoryCard ''ball'' ''0'' ''222'' ''500''))) ''ball-0''
     = None"
proof -
  let ?c = "accessoryCard ''ball'' ''0'' ''222'' ''500''"
  have h: "productType ?c \<noteq> Some ''shaft''"
    by (simp add: accessoryCard_def)
  have k: "tmpl (productType ?c) @ ''-'' @ tmpl (productIndex ?c) = ''ball-0''"
    by (simp add: accessoryCard_def tmpl_def)
  have b1: "js_get (selectedProducts scenarioC) ''ball-1''
     = Some \<lparr>id_p = Num 223, title = ''Accessory'', price = Num 600, image_p = [],
             slotKey = ''ball-1'', quantity = Num 2\<rparr>"
    by code_simp
  have b0: "js_get (selectedProducts (handleProductCardClick scenarioC ?c)) ''ball-0'' = None"
    by code_simp
  from C5_accessory_toggle_frame [OF h, of scenarioC] h b1 b0
  show ?thesis unfolding k by simp
qed

section \<open>The summary\<close>

text \<open>
  C6. The summary is a function of the selected products alone: two states with the same
  selected products have the same summary. It has one line per entry, in the order of the
  object, which is the order of insertion: a product stored under a free key gets the
  last line. The price shown on a line is unit price times quantity; the total is the sum
  of unit price times quantity over the entries, which is the sum of the line prices; the
  item count is the number of entries, which for distinct keys is the number of occupied
  slots, not the sum of the quantities. Unit price and quantity are read as the code reads
  them,
  \<^verbatim>\<open>product.price || 0\<close> and \<^verbatim>\<open>product.quantity || 1\<close>: the stored price when it is a
  number, the stored quantity when it is a number from 1 on.
\<close>

theorem C6_summary_of_selection:
  "summaryItems (updateSummary st) = map summaryItem (js_values (selectedProducts st)) \<and>
   (\<forall>p. item_price (summaryItem p) = unitPrice p * qty p \<and> item_qty (summaryItem p) = qty p \<and>
        item_slotKey (summaryItem p) = slotKey p \<and> item_title (summaryItem p) = title p) \<and>
   totalPrice (updateSummary st)
     = sum_list (map (\<lambda>p. unitPrice p * qty p) (js_values (selectedProducts st))) \<and>
   totalPrice (updateSummary st) = sum_list (map item_price (summaryItems (updateSummary st))) \<and>
   itemCount (updateSummary st) = length (selectedProducts st) \<and>
   (distinct (js_keys (selectedProducts st)) \<longrightarrow>
      itemCount (updateSummary st) = card {k. js_get (selectedProducts st) k \<noteq> None}) \<and>
   (selectedProducts st = selectedProducts st' \<longrightarrow> updateSummary st = updateSummary st') \<and>
   (\<forall>k p. js_get (selectedProducts st) k = None \<longrightarrow>
      summaryItems (updateSummary (st\<lparr>selectedProducts := js_set k p (selectedProducts st)\<rparr>))
        = summaryItems (updateSummary st) @ [summaryItem p]) \<and>
   (\<forall>p n. price p = Num n \<longrightarrow> unitPrice p = n) \<and>
   (\<forall>p q. quantity p = Num q \<and> 1 \<le> q \<longrightarrow> qty p = q)"
proof -
  have tot: "totalPrice (updateSummary st)
     = sum_list (map (\<lambda>p. unitPrice p * qty p) (js_values (selectedProducts st)))"
    by (simp add: updateSummary_def Let_def foldl_total unitPrice_def qty_def)
  have items: "summaryItems (updateSummary s) = map summaryItem (js_values (selectedProducts s))"
    for s :: "product builder"
    by (simp add: updateSummary_def Let_def)
  have each: "item_price (summaryItem p) = unitPrice p * qty p \<and> item_qty (summaryItem p) = qty p \<and>
        item_slotKey (summaryItem p) = slotKey p \<and> item_title (summaryItem p) = title p" for p
    by (simp add: summaryItem_def unitPrice_def)
  have cnt: "itemCount (updateSummary st) = length (selectedProducts st)"
    by (simp add: updateSummary_def Let_def js_values_def)
  have slots: "distinct (js_keys (selectedProducts st)) \<longrightarrow>
      itemCount (updateSummary st) = card {k. js_get (selectedProducts st) k \<noteq> None}"
    using occupied_slots [of "selectedProducts st"] by (simp add: cnt)
  have dep: "selectedProducts st = selectedProducts st' \<longrightarrow> updateSummary st = updateSummary st'"
    by (simp add: updateSummary_def)
  have tot2: "totalPrice (updateSummary st) = sum_list (map item_price (summaryItems (updateSummary st)))"
    unfolding tot items by (simp add: each comp_def)
  have appended: "\<forall>k p. js_get (selectedProducts st) k = None \<longrightarrow>
      summaryItems (updateSummary (st\<lparr>selectedProducts := js_set k p (selectedProducts st)\<rparr>))
        = summaryItems (updateSummary st) @ [summaryItem p]"
    by (simp add: items js_set_absent js_values_def)
  have stored: "\<forall>p n. price p = Num n \<longrightarrow> unitPrice p = n"
    "\<forall>p q. quantity p = Num q \<and> 1 \<le> q \<longrightarrow> qty p = q"
    by (simp_all add: unitPrice_def qty_def or_num_Num or_num_qty)
  have each': "\<forall>p. item_price (summaryItem p) = unitPrice p * qty p \<and> item_qty (summaryItem p) = qty p \<and>
        item_slotKey (summaryItem p) = slotKey p \<and> item_title (summaryItem p) = title p"
    using each by blast
  show ?thesis
    by (intro conjI items each' tot tot2 cnt slots dep appended stored)
qed

theorem C6_summary_witness:
  "distinct (js_keys (selectedProducts scenarioC)) \<and>
   totalPrice (updateSummary scenarioC) = 29900 + 500 + 2 * 600 + 900 \<and>
   itemCount (updateSummary scenarioC) = 4 \<and>
   card {k. js_get (selectedProducts scenarioC) k \<noteq> None} = 4 \<and>
   map item_slotKey (summaryItems (updateSummary scenarioC))
     = [''shaft'', ''ball-0'', ''ball-1'', ''pineapple-0'']"
proof -
  have d: "distinct (js_keys (selectedProducts scenarioC))"
    by code_simp
  have t: "totalPrice (updateSummary scenarioC) = 29900 + 500 + 2 * 600 + 900"
    by code_simp
  have n: "itemCount (updateSummary scenarioC) = 4"
    by code_simp
  have o: "map item_slotKey (summaryItems (updateSummary scenarioC))
     = [''shaft'', ''ball-0'', ''ball-1'', ''pineapple-0'']"
    by code_simp
  from C6_summary_of_selection [of scenarioC scenarioC] d t n o
  show ?thesis by simp
qed

section \<open>Quantity changes\<close>

text \<open>
  C7. The quantity buttons change a quantity by the number \<open>d\<close> on the button, so the
  new quantity is the displayed quantity plus \<open>d\<close>. A click with a missing or empty
  slot key, with a slot key that has no entry, or with a new quantity below 1 leaves the
  state as it is, and raises nothing. For an entry and a new quantity from 1 on, the
  entry's quantity becomes the new quantity, every other entry and the order of the keys
  stay, and the entry's line in the summary shows the new quantity and unit price times
  the new quantity.
\<close>

theorem C7_quantity_change:
  "parseInt (dataQtyChange b) = Num d \<Longrightarrow>
   (dataSlotKey b = None \<or> dataSlotKey b = Some [] \<longrightarrow> handleQtyChange st b = st) \<and>
   (\<forall>key. dataSlotKey b = Some key \<and> js_get (selectedProducts st) key = None \<longrightarrow>
      handleQtyChange st b = st) \<and>
   (\<forall>key p. dataSlotKey b = Some key \<and> js_get (selectedProducts st) key = Some p \<and> qty p + d < 1 \<longrightarrow>
      handleQtyChange st b = st) \<and>
   (\<forall>key p. dataSlotKey b = Some key \<and> key \<noteq> [] \<and> js_get (selectedProducts st) key = Some p \<and>
       1 \<le> qty p + d \<longrightarrow>
      js_get (selectedProducts (handleQtyChange st b)) key = Some (p\<lparr>quantity := Num (qty p + d)\<rparr>) \<and>
      (\<forall>k. k \<noteq> key \<longrightarrow>
         js_get (selectedProducts (handleQtyChange st b)) k = js_get (selectedProducts st) k) \<and>
      js_keys (selectedProducts (handleQtyChange st b)) = js_keys (selectedProducts st) \<and>
      summaryItem (p\<lparr>quantity := Num (qty p + d)\<rparr>)
        \<in> set (summaryItems (updateSummary (handleQtyChange st b))) \<and>
      item_qty (summaryItem (p\<lparr>quantity := Num (qty p + d)\<rparr>)) = qty p + d \<and>
      item_price (summaryItem (p\<lparr>quantity := Num (qty p + d)\<rparr>)) = unitPrice p * (qty p + d))"
proof -
  assume pd: "parseInt (dataQtyChange b) = Num d"
  have absent: "handleQtyChange st b = st" if "dataSlotKey b = None \<or> dataSlotKey b = Some []"
    using that by (auto simp: handleQtyChange_def)
  have nokey: "handleQtyChange st b = st"
    if "dataSlotKey b = Some key" "js_get (selectedProducts st) key = None" for key
    using that by (simp add: handleQtyChange_def)
  have low: "handleQtyChange st b = st"
    if "dataSlotKey b = Some key" "js_get (selectedProducts st) key = Some p" "qty p + d < 1" for key p
    using that pd by (simp add: handleQtyChange_def Let_def js_add_def js_lt_def qty_def)
  have upd: "handleQtyChange st b
       = st\<lparr>selectedProducts := js_set key (p\<lparr>quantity := Num (qty p + d)\<rparr>) (selectedProducts st)\<rparr>"
    if "dataSlotKey b = Some key" "key \<noteq> []" "js_get (selectedProducts st) key = Some p" "1 \<le> qty p + d"
    for key p
    using that pd by (simp add: handleQtyChange_def Let_def js_add_def js_lt_def qty_def)
  have line: "item_qty (summaryItem (p\<lparr>quantity := Num q\<rparr>)) = q \<and>
              item_price (summaryItem (p\<lparr>quantity := Num q\<rparr>)) = unitPrice p * q" if "1 \<le> q" for p q
    using that by (simp add: summaryItem_def qty_def unitPrice_def or_num_def)
  show ?thesis
  proof (intro conjI allI impI; (elim conjE)?)
    fix key p
    assume a: "dataSlotKey b = Some key" "key \<noteq> []" "js_get (selectedProducts st) key = Some p"
      "1 \<le> qty p + d"
    note u = upd [OF a]
    show "js_get (selectedProducts (handleQtyChange st b)) key = Some (p\<lparr>quantity := Num (qty p + d)\<rparr>)"
      by (simp add: u js_get_set_same)
    show "js_keys (selectedProducts (handleQtyChange st b)) = js_keys (selectedProducts st)"
      using a(3) by (simp add: u js_keys_set_present)
    show "summaryItem (p\<lparr>quantity := Num (qty p + d)\<rparr>)
        \<in> set (summaryItems (updateSummary (handleQtyChange st b)))"
      using js_get_values [of "js_set key (p\<lparr>quantity := Num (qty p + d)\<rparr>) (selectedProducts st)" key]
      by (simp add: u updateSummary_def Let_def js_get_set_same)
    show "item_qty (summaryItem (p\<lparr>quantity := Num (qty p + d)\<rparr>)) = qty p + d"
      using line [OF a(4)] by simp
    show "item_price (summaryItem (p\<lparr>quantity := Num (qty p + d)\<rparr>)) = unitPrice p * (qty p + d)"
      using line [OF a(4)] by simp
    fix k assume "k \<noteq> key"
    then show "js_get (selectedProducts (handleQtyChange st b)) k = js_get (selectedProducts st) k"
      by (simp add: u js_get_set_other)
  qed (use absent nokey low in blast)+
qed

theorem C7_quantity_change_witness:
  "parseInt (dataQtyChange (plusButton ''ball-1'')) = Num 1 \<and>
   parseInt (dataQtyChange (minusButton ''shaft'')) = Num (- 1) \<and>
   js_get (selectedProducts scenarioC) ''ball-1''
     = Some \<lparr>id_p = Num 223, title = ''Accessory'', price = Num 600, image_p = [],
             slotKey = ''ball-1'', quantity = Num 2\<rparr> \<and>
   js_get (selectedProducts (handleQtyChange scenarioC (plusButton ''ball-1''))) ''ball-1''
     = Some \<lparr>id_p = Num 223, title = ''Accessory'', price = Num 600, image_p = [],
             slotKey = ''ball-1'', quantity = Num 3\<rparr> \<and>
   item_price (summaryItem \<lparr>id_p = Num 223, title = ''Accessory'', price = Num 600, image_p = [],
             slotKey = ''ball-1'', quantity = Num 3\<rparr>) = 1800 \<and>
   js_get (selectedProducts scenarioC) ''shaft''
     = Some \<lparr>id_p = Num 111, title = ''Shaft'', price = Num 29900, image_p = [],
             slotKey = ''shaft'', quantity = Num 1\<rparr> \<and>
   handleQtyChange scenarioC (minusButton ''shaft'') = scenarioC \<and>
   handleQtyChange scenarioC (plusButton ''ball-7'') = scenarioC"
proof -
  let ?p = "\<lparr>id_p = Num 223, title = ''Accessory'', price = Num 600, image_p = [],
             slotKey = ''ball-1'', quantity = Num 2\<rparr>"
  let ?s = "\<lparr>id_p = Num 111, title = ''Shaft'', price = Num 29900, image_p = [],
             slotKey = ''shaft'', quantity = Num 1\<rparr>"
  have h: "parseInt (dataQtyChange (plusButton ''ball-1'')) = Num 1"
    by code_simp
  have h7: "parseInt (dataQtyChange (plusButton ''ball-7'')) = Num 1"
    by code_simp
  have m: "parseInt (dataQtyChange (minusButton ''shaft'')) = Num (- 1)"
    by code_simp
  have k: "dataSlotKey (plusButton ''ball-1'') = Some ''ball-1''" "''ball-1'' \<noteq> []"
    "dataSlotKey (minusButton ''shaft'') = Some ''shaft''"
    "dataSlotKey (plusButton ''ball-7'') = Some ''ball-7''"
    by (simp_all add: plusButton_def minusButton_def)
  have g: "js_get (selectedProducts scenarioC) ''ball-1'' = Some ?p"
    by code_simp
  have gs: "js_get (selectedProducts scenarioC) ''shaft'' = Some ?s"
    by code_simp
  have g7: "js_get (selectedProducts scenarioC) ''ball-7'' = None"
    by code_simp
  have q: "qty ?p + 1 = 3" "unitPrice ?p = 600" "qty ?s + (- 1) < 1"
    by (simp_all add: qty_def unitPrice_def or_num_def)
  from C7_quantity_change [OF h, of scenarioC] k g q
  have plus: "js_get (selectedProducts (handleQtyChange scenarioC (plusButton ''ball-1''))) ''ball-1''
     = Some (?p\<lparr>quantity := Num 3\<rparr>)"
    "item_price (summaryItem (?p\<lparr>quantity := Num 3\<rparr>)) = 1800"
    by auto
  from C7_quantity_change [OF m, of scenarioC] k gs q
  have minus: "handleQtyChange scenarioC (minusButton ''shaft'') = scenarioC"
    by blast
  from C7_quantity_change [OF h7, of scenarioC] k g7
  have missing: "handleQtyChange scenarioC (plusButton ''ball-7'') = scenarioC"
    by blast
  from plus minus missing h m g gs show ?thesis
    by simp
qed

section \<open>Submission\<close>

lemma truthy_iff: "truthy x \<longleftrightarrow> (\<exists>n. x = Num n \<and> n \<noteq> 0)"
  by (cases x) (auto simp: truthy_def)

lemma cartItems_empty_iff:
  "cartItems st = [] \<longleftrightarrow> list_all (\<lambda>p. \<not> truthy (id_p p)) (js_values (selectedProducts st))"
  by (simp add: cartItems_def filter_empty_conv list_all_iff)

lemma handleAddToCart_nothing:
  "cartItems st = [] \<Longrightarrow> handleAddToCart st add cart = (NothingSelected, [], st)"
  by (simp add: handleAddToCart_def)

lemma handleAddToCart_failed:
  "cartItems st \<noteq> [] \<Longrightarrow> add = AddRejected \<or> add = AddResponse False parsed \<Longrightarrow>
   handleAddToCart st add cart = (Failed, [AddItems (cartItems st)], st)"
  by (auto simp: handleAddToCart_def Let_def)

text \<open>
  C9. When the add request is rejected or its response is not ok, the state after the
  submission is the state before it, selection path and selected products alike, so a
  second submission builds the same batch. Whenever the request was sent, that is
  whenever the batch is not empty, the outcome is the failure label and the add request
  is the only one sent; with an empty batch nothing is sent and nothing can be rejected.
  The batch is not empty as soon as one entry has an id that is a number other than 0.
\<close>

theorem C9_failed_submission_keeps_state:
  "add = AddRejected \<or> add = AddResponse False parsed \<Longrightarrow>
   snd (snd (handleAddToCart st add cart)) = st \<and>
   cartItems (snd (snd (handleAddToCart st add cart))) = cartItems st \<and>
   (cartItems st \<noteq> [] \<longrightarrow>
      fst (handleAddToCart st add cart) = Failed \<and>
      fst (snd (handleAddToCart st add cart)) = [AddItems (cartItems st)]) \<and>
   (cartItems st = [] \<longrightarrow>
      fst (handleAddToCart st add cart) = NothingSelected \<and>
      fst (snd (handleAddToCart st add cart)) = []) \<and>
   (list_ex (\<lambda>p. truthy (id_p p)) (js_values (selectedProducts st)) \<longrightarrow> cartItems st \<noteq> [])"
proof -
  assume f: "add = AddRejected \<or> add = AddResponse False parsed"
  have st: "snd (snd (handleAddToCart st add cart)) = st"
    using f handleAddToCart_nothing [of st add cart] handleAddToCart_failed [of st add parsed cart]
    by (cases "cartItems st = []") auto
  have ne: "list_ex (\<lambda>p. truthy (id_p p)) (js_values (selectedProducts st)) \<longrightarrow> cartItems st \<noteq> []"
    by (auto simp: cartItems_def list_ex_iff filter_empty_conv)
  have sent: "cartItems st \<noteq> [] \<longrightarrow>
      fst (handleAddToCart st add cart) = Failed \<and>
      fst (snd (handleAddToCart st add cart)) = [AddItems (cartItems st)]"
    using handleAddToCart_failed [OF _ f, of st cart] by simp
  have unsent: "cartItems st = [] \<longrightarrow>
      fst (handleAddToCart st add cart) = NothingSelected \<and>
      fst (snd (handleAddToCart st add cart)) = []"
    using handleAddToCart_nothing [of st add cart] by simp
  have again: "cartItems (snd (snd (handleAddToCart st add cart))) = cartItems st"
    by (simp add: st)
  show ?thesis
    by (intro conjI st again sent unsent ne)
qed

theorem C9_failed_submission_witness:
  "selectedProducts scenarioB \<noteq> [] \<and>
   handleAddToCart scenarioB (AddResponse False True) (CartRead 2)
     = (Failed, [AddItems [(Num 111, 1), (Num 222, 1)]], scenarioB)"
proof -
  have ne: "selectedProducts scenarioB \<noteq> []"
    by code_simp
  have items: "cartItems scenarioB = [(Num 111, 1), (Num 222, 1)]"
    by code_simp
  have f: "AddResponse False True = AddRejected \<or> AddResponse False True = AddResponse False True"
    by simp
  from C9_failed_submission_keeps_state [OF f, of scenarioB "CartRead 2"] ne items
  show ?thesis by (cases "handleAddToCart scenarioB (AddResponse False True) (CartRead 2)") auto
qed

text \<open>
  C10. The guard of the toggle only asks for a variant id that is present and not empty.
  With an id that \<^verbatim>\<open>parseInt\<close> does not read as a number, a click on a shaft card stores
  an entry whose id is \<^verbatim>\<open>NaN\<close>, and so does a click on an accessory card whose slot is
  free. In any state the batch holds no id that is \<^verbatim>\<open>NaN\<close> or 0 and has one item per entry
  with a truthy id, while the summary has a line for every entry and counts every entry.
  When every entry has a falsy id, the submission answers that nothing is selected, sends
  no request and keeps the state.
\<close>

theorem C10_unparsable_variant_id:
  "variantId c = Some vid \<Longrightarrow> vid \<noteq> [] \<Longrightarrow> parseInt (Some vid) = NaN \<Longrightarrow>
   (productType c = Some ''shaft'' \<longrightarrow>
      (\<exists>p. js_get (selectedProducts (handleProductCardClick st c)) ''shaft'' = Some p \<and> id_p p = NaN)) \<and>
   (productType c \<noteq> Some ''shaft'' \<and>
    js_get (selectedProducts st) (tmpl (productType c) @ ''-'' @ tmpl (productIndex c)) = None \<longrightarrow>
      (\<exists>p. js_get (selectedProducts (handleProductCardClick st c))
              (tmpl (productType c) @ ''-'' @ tmpl (productIndex c)) = Some p \<and> id_p p = NaN)) \<and>
   (\<forall>i q. (i, q) \<in> set (cartItems s) \<longrightarrow> i \<noteq> NaN \<and> i \<noteq> Num 0) \<and>
   length (cartItems s) = length (filter (\<lambda>p. truthy (id_p p)) (js_values (selectedProducts s))) \<and>
   length (summaryItems (updateSummary s)) = length (selectedProducts s) \<and>
   itemCount (updateSummary s) = length (selectedProducts s) \<and>
   (list_all (\<lambda>p. id_p p = NaN \<or> id_p p = Num 0) (js_values (selectedProducts s)) \<longrightarrow>
      handleAddToCart s add cart = (NothingSelected, [], s))"
proof -
  assume v: "variantId c = Some vid" "vid \<noteq> []" "parseInt (Some vid) = NaN"
  have shaft: "\<exists>p. js_get (selectedProducts (handleProductCardClick st c)) ''shaft'' = Some p \<and> id_p p = NaN"
    if "productType c = Some ''shaft''"
    using that v
    by (auto simp: handleProductCardClick_def Let_def strict_eq_def js_get_set_same
        split: option.splits jsnum.splits)
  have acc: "\<exists>p. js_get (selectedProducts (handleProductCardClick st c))
              (tmpl (productType c) @ ''-'' @ tmpl (productIndex c)) = Some p \<and> id_p p = NaN"
    if "productType c \<noteq> Some ''shaft''"
      "js_get (selectedProducts st) (tmpl (productType c) @ ''-'' @ tmpl (productIndex c)) = None"
    using that v by (simp add: handleProductCardClick_def Let_def js_get_set_same)
  have batch: "i \<noteq> NaN \<and> i \<noteq> Num 0" if "(i, q) \<in> set (cartItems s)" for i q
    using that by (auto simp: cartItems_def truthy_def)
  have len: "length (cartItems s) = length (filter (\<lambda>p. truthy (id_p p)) (js_values (selectedProducts s)))"
    by (simp add: cartItems_def)
  have summ: "length (summaryItems (updateSummary s)) = length (selectedProducts s)"
    "itemCount (updateSummary s) = length (selectedProducts s)"
    by (simp_all add: updateSummary_def Let_def js_values_def)
  have falsy: "\<not> truthy x \<longleftrightarrow> x = NaN \<or> x = Num 0" for x
    by (cases x) (auto simp: truthy_def)
  have nosend: "list_all (\<lambda>p. id_p p = NaN \<or> id_p p = Num 0) (js_values (selectedProducts s)) \<longrightarrow>
      handleAddToCart s add cart = (NothingSelected, [], s)"
  proof
    assume "list_all (\<lambda>p. id_p p = NaN \<or> id_p p = Num 0) (js_values (selectedProducts s))"
    then have "cartItems s = []"
      by (simp add: cartItems_empty_iff falsy)
    then show "handleAddToCart s add cart = (NothingSelected, [], s)"
      by (rule handleAddToCart_nothing)
  qed
  have shaft': "productType c = Some ''shaft'' \<longrightarrow>
      (\<exists>p. js_get (selectedProducts (handleProductCardClick st c)) ''shaft'' = Some p \<and> id_p p = NaN)"
    using shaft by blast
  have acc': "productType c \<noteq> Some ''shaft'' \<and>
    js_get (selectedProducts st) (tmpl (productType c) @ ''-'' @ tmpl (productIndex c)) = None \<longrightarrow>
      (\<exists>p. js_get (selectedProducts (handleProductCardClick st c))
              (tmpl (productType c) @ ''-'' @ tmpl (productIndex c)) = Some p \<and> id_p p = NaN)"
    using acc by blast
  have batch': "\<forall>i q. (i, q) \<in> set (cartItems s) \<longrightarrow> i \<noteq> NaN \<and> i \<noteq> Num 0"
    using batch by blast
  show ?thesis
    by (intro conjI shaft' acc' batch' len summ nosend)
qed

theorem C10_unparsable_variant_id_witness:
  "variantId (shaftCard ''abc'' ''29900'') = Some ''abc'' \<and>
   parseInt (Some ''abc'') = NaN \<and>
   js_get (selectedProducts scenarioNaN) ''shaft''
     = Some \<lparr>id_p = NaN, title = ''Shaft'', price = Num 29900, image_p = [],
             slotKey = ''shaft'', quantity = Num 1\<rparr> \<and>
   itemCount (updateSummary scenarioNaN) = 1 \<and>
   handleAddToCart scenarioNaN (AddResponse True True) (CartRead 1) = (NothingSelected, [], scenarioNaN)"
proof -
  have v: "variantId (shaftCard ''abc'' ''29900'') = Some ''abc''" "''abc'' \<noteq> []"
    by (simp_all add: shaftCard_def)
  have n: "parseInt (Some ''abc'') = NaN"
    by code_simp
  have g: "js_get (selectedProducts scenarioNaN) ''shaft''
     = Some \<lparr>id_p = NaN, title = ''Shaft'', price = Num 29900, image_p = [],
             slotKey = ''shaft'', quantity = Num 1\<rparr>"
    by code_simp
  have c: "itemCount (updateSummary scenarioNaN) = 1"
    by code_simp
  have a: "list_all (\<lambda>p. id_p p = NaN \<or> id_p p = Num 0) (js_values (selectedProducts scenarioNaN))"
    by code_simp
  from C10_unparsable_variant_id [OF v n, of "newBuilder True" scenarioNaN "AddResponse True True" "CartRead 1"]
    v n g c a
  show ?thesis by blast
qed

section \<open>Further facts\<close>

text \<open>
  The scenarios of the specification: after scenario A the summary counts one item at
  29900; the ball of scenario B makes it two items at 30400; a sport change then empties
  the selection.
\<close>

lemma scenarios_A_and_B:
  "totalPrice (updateSummary scenarioA) = 29900 \<and> itemCount (updateSummary scenarioA) = 1 \<and>
   totalPrice (updateSummary scenarioB) = 30400 \<and> itemCount (updateSummary scenarioB) = 2 \<and>
   selectedProducts (handleChipClick exampleCatalog scenarioB (Some ''sport'') ''softball'') = [] \<and>
   itemCount (updateSummary (handleChipClick exampleCatalog scenarioB (Some ''sport'') ''softball'')) = 0"
  by code_simp

text \<open>A submission with nothing selected sends no request and keeps the state.\<close>

lemma empty_selection_sends_nothing:
  "selectedProducts st = [] \<Longrightarrow> handleAddToCart st add cart = (NothingSelected, [], st)"
  by (simp add: handleAddToCart_def cartItems_def js_values_def)

lemma empty_selection_sends_nothing_witness:
  "selectedProducts (newBuilder True :: product builder) = [] \<and>
   handleAddToCart (newBuilder True) (AddResponse True True) (CartRead 0)
     = (NothingSelected, [], newBuilder True)"
proof -
  have e: "selectedProducts (newBuilder True :: product builder) = []"
    by (simp add: newBuilder_def)
  from empty_selection_sends_nothing [OF e, of "AddResponse True True" "CartRead 0"] e
  show ?thesis by simp
qed

text \<open>
  A submission that goes through sends the batch, reads the cart, reports its item count
  and resets the component: no sport, shaft type or shaft size, no selected product.
\<close>

lemma resetBuilder_empty:
  "selectedProducts (resetBuilder st) = [] \<and> sport (resetBuilder st) = None \<and>
   shaftType (resetBuilder st) = None \<and> shaftSize (resetBuilder st) = None"
  by (simp add: resetBuilder_def hideAccessoryPanels_filter hideShaftProduct_def
      clearShaftSizeChips_def split: option.splits)

lemma successful_submission_resets:
  "cartItems st \<noteq> [] \<Longrightarrow>
   handleAddToCart st (AddResponse True True) (CartRead n)
     = (Added n, [AddItems (cartItems st), ReadCart], resetBuilder st) \<and>
   selectedProducts (resetBuilder st) = [] \<and> sport (resetBuilder st) = None \<and>
   shaftType (resetBuilder st) = None \<and> shaftSize (resetBuilder st) = None"
  by (simp add: handleAddToCart_def Let_def resetBuilder_empty)

lemma successful_submission_resets_witness:
  "cartItems scenarioB = [(Num 111, 1), (Num 222, 1)] \<and>
   fst (handleAddToCart scenarioB (AddResponse True True) (CartRead 2)) = Added 2 \<and>
   fst (snd (handleAddToCart scenarioB (AddResponse True True) (CartRead 2)))
     = [AddItems [(Num 111, 1), (Num 222, 1)], ReadCart] \<and>
   selectedProducts (snd (snd (handleAddToCart scenarioB (AddResponse True True) (CartRead 2)))) = []"
proof -
  have items: "cartItems scenarioB = [(Num 111, 1), (Num 222, 1)]"
    by code_simp
  then have ne: "cartItems scenarioB \<noteq> []"
    by simp
  from successful_submission_resets [OF ne, of 2] items
  show ?thesis by simp
qed

text \<open>
  A quantity button whose change does not parse makes the new quantity \<^verbatim>\<open>NaN\<close>, which is
  not below 1: it is stored, and read back as 1 by the summary and the batch.
\<close>

lemma unparsable_quantity_change:
  "parseInt (dataQtyChange b) = NaN \<Longrightarrow> dataSlotKey b = Some key \<Longrightarrow> key \<noteq> [] \<Longrightarrow>
   js_get (selectedProducts st) key = Some p \<Longrightarrow>
   js_get (selectedProducts (handleQtyChange st b)) key = Some (p\<lparr>quantity := NaN\<rparr>) \<and>
   qty (p\<lparr>quantity := NaN\<rparr>) = 1"
  by (simp add: handleQtyChange_def Let_def js_add_def js_lt_def js_get_set_same qty_def or_num_def)

lemma unparsable_quantity_change_witness:
  "parseInt (dataQtyChange \<lparr>dataSlotKey = Some ''ball-1'', dataQtyChange = None\<rparr>) = NaN \<and>
   js_get (selectedProducts
      (handleQtyChange scenarioC \<lparr>dataSlotKey = Some ''ball-1'', dataQtyChange = None\<rparr>)) ''ball-1''
     = Some \<lparr>id_p = Num 223, title = ''Accessory'', price = Num 600, image_p = [],
             slotKey = ''ball-1'', quantity = NaN\<rparr>"
proof -
  let ?b = "\<lparr>dataSlotKey = Some ''ball-1'', dataQtyChange = None\<rparr>"
  have h: "parseInt (dataQtyChange ?b) = NaN"
    by (simp add: parseInt_None)
  have k: "dataSlotKey ?b = Some ''ball-1''" "''ball-1'' \<noteq> []"
    by simp_all
  have g: "js_get (selectedProducts scenarioC) ''ball-1''
     = Some \<lparr>id_p = Num 223, title = ''Accessory'', price = Num 600, image_p = [],
             slotKey = ''ball-1'', quantity = Num 2\<rparr>"
    by code_simp
  from unparsable_quantity_change [OF h k g] h
  show ?thesis by simp
qed

text \<open>
  No handler puts a key twice into the selected products, so the list of entries stands
  for the object throughout: at most one product per slot key.
\<close>

lemma slot_keys_stay_distinct:
  "distinct (js_keys (selectedProducts st)) \<Longrightarrow>
   distinct (js_keys (selectedProducts (handleProductCardClick st c))) \<and>
   distinct (js_keys (selectedProducts (handleChipClick cat st field v))) \<and>
   distinct (js_keys (selectedProducts (handleQtyChange st b))) \<and>
   distinct (js_keys (selectedProducts (handleRemoveFromSummary st k)))"
  by (auto simp: handleProductCardClick_def handleQtyChange_def handleRemoveFromSummary_def
      handleChipClick_def hideAccessoryPanels_filter hideShaftProduct_def renderShaftProduct_def
      Let_def distinct_js_set distinct_js_delete distinct_filter_keys
      split: option.splits)

lemma slot_keys_stay_distinct_witness:
  "distinct (js_keys (selectedProducts scenarioC)) \<and>
   distinct (js_keys (selectedProducts
     (handleProductCardClick scenarioC (accessoryCard ''ball'' ''2'' ''225'' ''650''))))"
proof -
  have d: "distinct (js_keys (selectedProducts scenarioC))"
    by code_simp
  from slot_keys_stay_distinct [OF d, of "accessoryCard ''ball'' ''2'' ''225'' ''650''"] d
  show ?thesis by simp
qed

end
